theory Spec2Isabelle
  imports Main
begin

section \<open>Peblar EV charger integration: setup, unload and the select entity\<close>

text \<open>
  A shallow embedding of \<^verbatim>\<open>homeassistant/components/peblar/__init__.py\<close> and
  \<^verbatim>\<open>homeassistant/components/peblar/select.py\<close>. Coroutines are state transformers
  on one record \<open>hass\<close> (the host, the config entry and the charger behind the vendor
  client) returning the value or the exception raised, together with the new state.
\<close>

subsection \<open>Exceptions\<close>

text \<open>
  The exception classes the two files name or can meet. \<open>PeblarError\<close> stands for the
  vendor's base class and every subclass other than the two named ones; the two
  \<open>ConfigEntry...\<close> errors carry the cause of \<^verbatim>\<open>raise ... from err\<close>.
\<close>

datatype exn =
    PeblarConnectionError
  | PeblarAuthenticationError
  | PeblarError
  | ConfigEntryNotReady string "exn option"
  | ConfigEntryAuthFailed "exn option"
  | KeyError string
  | ValueError string
  | AttributeError string
  | Exception string

text \<open>The subclass tests that the \<^verbatim>\<open>except\<close> clauses perform.\<close>

fun isinstance_PeblarConnectionError :: "exn \<Rightarrow> bool" where
  "isinstance_PeblarConnectionError PeblarConnectionError = True"
| "isinstance_PeblarConnectionError _ = False"

fun isinstance_PeblarAuthenticationError :: "exn \<Rightarrow> bool" where
  "isinstance_PeblarAuthenticationError PeblarAuthenticationError = True"
| "isinstance_PeblarAuthenticationError _ = False"

fun isinstance_PeblarError :: "exn \<Rightarrow> bool" where
  "isinstance_PeblarError PeblarConnectionError = True"
| "isinstance_PeblarError PeblarAuthenticationError = True"
| "isinstance_PeblarError PeblarError = True"
| "isinstance_PeblarError _ = False"

subsection \<open>Data of the vendor library\<close>

datatype AccessMode = READ_ONLY | READ_WRITE

datatype SmartChargingMode = DEFAULT | FAST_SOLAR | PURE_SOLAR | SCHEDULED | SMART_SOLAR

text \<open>
  Modelled from the spec: the enumeration of smart-charging modes is the vendor
  library's; its values are the fixed set of section 6 (default, fast-solar, pure-solar,
  scheduled, smart-solar), spelled as the options of \<^verbatim>\<open>DESCRIPTIONS\<close> spell them.
\<close>

fun SmartChargingMode_value :: "SmartChargingMode \<Rightarrow> string" where
  "SmartChargingMode_value DEFAULT = ''default''"
| "SmartChargingMode_value FAST_SOLAR = ''fast_solar''"
| "SmartChargingMode_value PURE_SOLAR = ''pure_solar''"
| "SmartChargingMode_value SCHEDULED = ''scheduled''"
| "SmartChargingMode_value SMART_SOLAR = ''smart_solar''"

text \<open>
  Modelled from the spec: the call \<^verbatim>\<open>SmartChargingMode(mode)\<close> of line 45, which
  yields the member with that value and raises ValueError when there is none.
\<close>

definition SmartChargingMode_of :: "string \<Rightarrow> exn + SmartChargingMode" where
  "SmartChargingMode_of mode =
     (case filter (\<lambda>m. SmartChargingMode_value m = mode)
             [DEFAULT, FAST_SOLAR, PURE_SOLAR, SCHEDULED, SMART_SOLAR] of
        [] \<Rightarrow> Inl (ValueError mode)
      | m # _ \<Rightarrow> Inr m)"

text \<open>
  Modelled from the spec: the data classes of the vendor library, with the fields that
  the two files read (sections 3 and 6).
\<close>

record PeblarSystemInformation =
  product_serial_number :: string
  product_vendor_name :: string
  product_number :: string
  product_model_name :: string
  ethernet_mac_address :: string
  wlan_mac_address :: string

record PeblarUserConfiguration =
  smart_charging :: "SmartChargingMode option"

record PeblarVersions =
  firmware :: "string option"
  customization :: "string option"

record PeblarVersionInformation =
  current :: PeblarVersions
  available :: PeblarVersions

text \<open>The telemetry payload; neither source file looks inside it.\<close>

record PeblarData =
  meter_power :: int

datatype PeblarApi = PeblarApi

subsection \<open>Coordinators\<close>

datatype coordinator_id = Meter | UserConfiguration | Version

record 'a coordinator =
  data :: "'a option"
  last_exception :: "exn option"

text \<open>
  Modelled from the spec: the coordinator classes live in \<^verbatim>\<open>coordinator.py\<close> and the
  host's update-coordinator helper, neither among the sources. Section 4.2: on refresh
  a coordinator calls its underlying fetch; on success it replaces the cached snapshot
  and resets the error state; on failure it retains the previous snapshot and records
  the error.
\<close>

definition refresh :: "exn + 'a \<Rightarrow> 'a coordinator \<Rightarrow> 'a coordinator" where
  "refresh fetched c =
     (case fetched of
        Inr d \<Rightarrow> c\<lparr>data := Some d, last_exception := None\<rparr>
      | Inl err \<Rightarrow> c\<lparr>last_exception := Some err\<rparr>)"

text \<open>
  Modelled from the spec: a newly constructed coordinator holds no snapshot and no
  error.
\<close>

definition new_coordinator :: "'a coordinator" where
  "new_coordinator = \<lparr>data = None, last_exception = None\<rparr>"

text \<open>
  Modelled from the spec: the first refresh is a refresh whose failure is raised to the
  caller (section 4.1: if a coordinator's first refresh fails, setup fails).
\<close>

definition async_config_entry_first_refresh ::
  "exn + 'a \<Rightarrow> 'a coordinator \<Rightarrow> exn option \<times> 'a coordinator" where
  "async_config_entry_first_refresh fetched c =
     (let c' = refresh fetched c in (last_exception c', c'))"

subsection \<open>The host, the config entry and the charger\<close>

datatype Platform = BINARY_SENSOR | BUTTON | NUMBER | SELECT | SENSOR | SWITCH | UPDATE

definition PLATFORMS :: "Platform list" where
  "PLATFORMS = [BINARY_SENSOR, BUTTON, NUMBER, SELECT, SENSOR, SWITCH, UPDATE]"

text \<open>
  Constants declared outside the sources, in \<^verbatim>\<open>const.py\<close> and in the host. The
  theorems of the claims are stated for whatever values they have.
\<close>

definition DOMAIN :: string where
  "DOMAIN = ''peblar''"

definition CONNECTION_NETWORK_MAC :: string where
  "CONNECTION_NETWORK_MAC = ''mac''"

definition CONF_HOST :: string where
  "CONF_HOST = ''host''"

definition CONF_PASSWORD :: string where
  "CONF_PASSWORD = ''password''"

record PeblarRuntimeData =
  data_coordinator :: "PeblarData coordinator"
  system_information :: PeblarSystemInformation
  user_configuraton_coordinator :: "PeblarUserConfiguration coordinator"
  version_coordinator :: "PeblarVersionInformation coordinator"

record PeblarConfigEntry =
  entry_id :: string
  unique_id :: string
  entry_data :: "string \<rightharpoonup> string"
  runtime_data :: "PeblarRuntimeData option"

text \<open>The keyword arguments of \<^verbatim>\<open>device_registry.async_get_or_create\<close>.\<close>

record device =
  config_entry_id :: string
  configuration_url :: string
  connections :: "(string \<times> string) set"
  identifiers :: "(string \<times> string) set"
  manufacturer :: string
  model_id :: string
  model :: string
  name :: string
  serial_number :: string
  sw_version :: "string option"

text \<open>
  Modelled from the spec: the vendor client is a black box (section 2). The record
  holds what each of its calls does when made: the error it raises, if any, and the
  value it returns otherwise. The charger keeps its user configuration, which the write
  call changes and the fetch returns. \<open>finished\<close> is the time at which each
  coordinator's first refresh completes.
\<close>

record peblar =
  login_fault :: "exn option"
  system_information_result :: "exn + PeblarSystemInformation"
  rest_api_fault :: "exn option"
  meter_result :: "exn + PeblarData"
  versions_result :: "exn + PeblarVersionInformation"
  user_configuration_fault :: "exn option"
  smart_charging_fault :: "exn option"
  charger_configuration :: PeblarUserConfiguration
  finished :: "coordinator_id \<Rightarrow> nat"

text \<open>
  The calls that the code makes to the vendor client and to the host, recorded in the
  order in which they are made; a first refresh is recorded when it completes.
\<close>

datatype event =
    CreateClientSession
  | Login string
  | SystemInformation
  | RestApi bool AccessMode
  | Construct coordinator_id
  | FirstRefresh coordinator_id
  | StoreRuntimeData
  | RegisterDevice
  | ForwardEntrySetups "Platform list"
  | UnloadPlatforms "Platform list"
  | SmartCharging SmartChargingMode
  | UserConfigurationFetch
  | RequestRefresh
  | CloseClientSession

text \<open>
  The state that setup, unload and the entity act on: the config entry, the charger
  behind the vendor client, the device registry, the platforms set up for the entry,
  whether the teardown of each platform succeeds, the number of client sessions opened
  for the entry and not released, and the record of calls.
\<close>

record hass =
  entry :: PeblarConfigEntry
  charger :: peblar
  device_registry :: "device list"
  loaded_platforms :: "Platform set"
  teardown_ok :: "Platform \<Rightarrow> bool"
  open_sessions :: nat
  calls :: "event list"

definition called :: "event \<Rightarrow> hass \<Rightarrow> hass" where
  "called ev h = h\<lparr>calls := calls h @ [ev]\<rparr>"

subsection \<open>Calls of the vendor client\<close>

text \<open>
  Modelled from the spec: authenticate(password), the first outbound call of section 6.
  The call is recorded; it raises the injected error or returns.
\<close>

definition login :: "string \<Rightarrow> hass \<Rightarrow> (exn + unit) \<times> hass" where
  "login password h =
     (case login_fault (charger h) of
        Some err \<Rightarrow> (Inl err, called (Login password) h)
      | None \<Rightarrow> (Inr (), called (Login password) h))"

text \<open>Modelled from the spec: fetch system information (section 6).\<close>

definition peblar_system_information ::
  "hass \<Rightarrow> (exn + PeblarSystemInformation) \<times> hass" where
  "peblar_system_information h =
     (system_information_result (charger h), called SystemInformation h)"

text \<open>
  Modelled from the spec: enable the local REST API in the given access mode
  (section 6); the value returned is the handle of that API.
\<close>

definition rest_api :: "bool \<Rightarrow> AccessMode \<Rightarrow> hass \<Rightarrow> (exn + PeblarApi) \<times> hass" where
  "rest_api enable access_mode h =
     (case rest_api_fault (charger h) of
        Some err \<Rightarrow> (Inl err, called (RestApi enable access_mode) h)
      | None \<Rightarrow> (Inr PeblarApi, called (RestApi enable access_mode) h))"

text \<open>
  Modelled from the spec: fetch user configuration (section 6). The fetch returns what
  the charger holds.
\<close>

definition fetch_user_configuration :: "peblar \<Rightarrow> exn + PeblarUserConfiguration" where
  "fetch_user_configuration p =
     (case user_configuration_fault p of
        Some err \<Rightarrow> Inl err
      | None \<Rightarrow> Inr (charger_configuration p))"

text \<open>
  Modelled from the spec: write the smart-charging mode (section 6). A write that
  succeeds changes what the charger holds.
\<close>

definition peblar_smart_charging ::
  "SmartChargingMode \<Rightarrow> hass \<Rightarrow> (exn + unit) \<times> hass" where
  "peblar_smart_charging mode h =
     (case smart_charging_fault (charger h) of
        Some err \<Rightarrow> (Inl err, called (SmartCharging mode) h)
      | None \<Rightarrow>
          (Inr (),
           called (SmartCharging mode)
             (h\<lparr>charger := (charger h)
                 \<lparr>charger_configuration :=
                    (charger_configuration (charger h))\<lparr>smart_charging := Some mode\<rparr>\<rparr>\<rparr>)))"

subsection \<open>Primitives of the host\<close>

text \<open>
  The host's session factory, device registry and platform loader are collaborators
  outside the sources (section 1). Each is modelled by its effect on the host state.
\<close>

text \<open>
  Modelled from the spec: the client is constructed with a session of its own, created
  at setup (sections 3 and 4.1).
\<close>

definition async_create_clientsession :: "hass \<Rightarrow> hass" where
  "async_create_clientsession h =
     called CreateClientSession (h\<lparr>open_sessions := Suc (open_sessions h)\<rparr>)"

text \<open>
  Modelled from the spec: the registration of the device (sections 4.1 and 6); the
  registry is the list of the records it was given.
\<close>

definition async_get_or_create :: "device \<Rightarrow> hass \<Rightarrow> hass" where
  "async_get_or_create d h =
     called RegisterDevice (h\<lparr>device_registry := device_registry h @ [d]\<rparr>)"

text \<open>
  Modelled from the spec: the hand-off to the entity platforms (section 4.1); the
  platforms given are set up for the entry.
\<close>

definition async_forward_entry_setups :: "Platform list \<Rightarrow> hass \<Rightarrow> hass" where
  "async_forward_entry_setups platforms h =
     called (ForwardEntrySetups platforms)
       (h\<lparr>loaded_platforms := loaded_platforms h \<union> set platforms\<rparr>)"

text \<open>
  Modelled from the spec: the teardown of the entity platforms (section 5). A platform
  whose teardown succeeds is no longer set up; the result is success when every
  teardown succeeded.
\<close>

definition async_unload_platforms :: "Platform list \<Rightarrow> hass \<Rightarrow> bool \<times> hass" where
  "async_unload_platforms platforms h =
     (list_all (teardown_ok h) platforms,
      called (UnloadPlatforms platforms)
        (h\<lparr>loaded_platforms :=
             loaded_platforms h - set (filter (teardown_ok h) platforms)\<rparr>))"

text \<open>
  Modelled from the spec: the wait for the first refreshes launched together
  (sections 4.1 and 5), which is \<^verbatim>\<open>asyncio.gather\<close> without \<^verbatim>\<open>return_exceptions\<close>.
  The awaiting coroutine resumes with the exception of the first task that raises, or
  once every task has returned. \<open>gather_run\<close> takes the tasks in the order in which
  they finish and stops at the first that raised.
\<close>

fun gather_run :: "(coordinator_id \<times> exn option) list \<Rightarrow> event list \<times> exn option" where
  "gather_run [] = ([], None)"
| "gather_run ((c, Some err) # ts) = ([FirstRefresh c], Some err)"
| "gather_run ((c, None) # ts) =
     (case gather_run ts of (evs, r) \<Rightarrow> (FirstRefresh c # evs, r))"

text \<open>
  Modelled from the spec: the tasks finish in the order of their finishing times, two
  that finish together in the order in which they were given.
\<close>

definition gather ::
  "(coordinator_id \<Rightarrow> nat) \<Rightarrow> (coordinator_id \<times> exn option) list \<Rightarrow> hass
     \<Rightarrow> (exn + unit) \<times> hass" where
  "gather finish tasks h =
     (case gather_run (sort_key (\<lambda>t. finish (fst t)) tasks) of
        (evs, None) \<Rightarrow> (Inr (), h\<lparr>calls := calls h @ evs\<rparr>)
      | (evs, Some err) \<Rightarrow> (Inl err, h\<lparr>calls := calls h @ evs\<rparr>))"

subsection \<open>\<^verbatim>\<open>__init__.py\<close>: setup and unload\<close>

text \<open>Lines 51 to 53, the body of the \<^verbatim>\<open>try\<close>.\<close>

definition connect :: "hass \<Rightarrow> (exn + PeblarSystemInformation \<times> PeblarApi) \<times> hass" where
  "connect h =
     (case entry_data (entry h) CONF_PASSWORD of
        None \<Rightarrow> (Inl (KeyError CONF_PASSWORD), h)
      | Some password \<Rightarrow>
     (case login password h of
        (Inl err, h1) \<Rightarrow> (Inl err, h1)
      | (Inr _, h1) \<Rightarrow>
     (case peblar_system_information h1 of
        (Inl err, h2) \<Rightarrow> (Inl err, h2)
      | (Inr information, h2) \<Rightarrow>
     (case rest_api True READ_WRITE h2 of
        (Inl err, h3) \<Rightarrow> (Inl err, h3)
      | (Inr api, h3) \<Rightarrow> (Inr (information, api), h3)))))"

text \<open>
  Lines 54 to 61, the \<^verbatim>\<open>except\<close> clauses in their order; an exception none of them
  matches propagates as it is.
\<close>

definition except_clauses :: "exn \<Rightarrow> exn" where
  "except_clauses err =
     (if isinstance_PeblarConnectionError err
      then ConfigEntryNotReady ''Could not connect to Peblar charger'' (Some err)
      else if isinstance_PeblarAuthenticationError err
      then ConfigEntryAuthFailed (Some err)
      else if isinstance_PeblarError err
      then ConfigEntryNotReady
             ''Unknown error occurred while connecting to Peblar charger'' (Some err)
      else err)"

definition async_setup_entry :: "hass \<Rightarrow> (exn + bool) \<times> hass" where
  "async_setup_entry h =
     (case entry_data (entry h) CONF_HOST of
        None \<Rightarrow> (Inl (KeyError CONF_HOST), h)
      | Some host \<Rightarrow>
     (case connect (async_create_clientsession h) of
        (Inl err, h1) \<Rightarrow> (Inl (except_clauses err), h1)
      | (Inr (information, api), h1) \<Rightarrow>
     (let h2 = called (Construct Version)
                 (called (Construct UserConfiguration) (called (Construct Meter) h1));
          (meter_error, meter_coordinator) =
             async_config_entry_first_refresh (meter_result (charger h2)) new_coordinator;
          (user_configuration_error, user_configuration_coordinator) =
             async_config_entry_first_refresh
               (fetch_user_configuration (charger h2)) new_coordinator;
          (version_error, version_coordinator') =
             async_config_entry_first_refresh (versions_result (charger h2)) new_coordinator
      in
     (case gather (finished (charger h2))
             [(Meter, meter_error),
              (UserConfiguration, user_configuration_error),
              (Version, version_error)] h2 of
        (Inl err, h3) \<Rightarrow> (Inl err, h3)
      | (Inr _, h3) \<Rightarrow>
     (let h4 = called StoreRuntimeData
                 (h3\<lparr>entry := (entry h3)
                     \<lparr>runtime_data := Some
                        \<lparr>data_coordinator = meter_coordinator,
                         system_information = information,
                         user_configuraton_coordinator = user_configuration_coordinator,
                         version_coordinator = version_coordinator'\<rparr>\<rparr>\<rparr>)
      in
     (case data version_coordinator' of
        None \<Rightarrow> (Inl (AttributeError ''current''), h4)
      | Some versions \<Rightarrow>
     (let h5 = async_get_or_create
                 \<lparr>config_entry_id = entry_id (entry h4),
                  configuration_url = ''http://'' @ host,
                  connections =
                    {(CONNECTION_NETWORK_MAC, ethernet_mac_address information),
                     (CONNECTION_NETWORK_MAC, wlan_mac_address information)},
                  identifiers = {(DOMAIN, product_serial_number information)},
                  manufacturer = product_vendor_name information,
                  model_id = product_number information,
                  model = product_model_name information,
                  name = ''Peblar EV Charger'',
                  serial_number = product_serial_number information,
                  sw_version = firmware (current versions)\<rparr> h4;
          h6 = async_forward_entry_setups PLATFORMS h5
      in (Inr True, h6))))))))"

definition async_unload_entry :: "hass \<Rightarrow> bool \<times> hass" where
  "async_unload_entry h = async_unload_platforms PLATFORMS h"

text \<open>
  Modelled from the spec: the host's unload of an entry (sections 3 and 5). It calls
  the integration's \<open>async_unload_entry\<close>; when that reports success, the session
  created at setup is released and the runtime data, whose lifetime is the entry's, is
  gone.
\<close>

definition unload :: "hass \<Rightarrow> bool \<times> hass" where
  "unload h =
     (case async_unload_entry h of
        (ok, h1) \<Rightarrow>
          if ok
          then (True,
                called CloseClientSession
                  (h1\<lparr>open_sessions := 0, entry := (entry h1)\<lparr>runtime_data := None\<rparr>\<rparr>))
          else (False, h1))"

subsection \<open>\<^verbatim>\<open>select.py\<close>: the select entity\<close>

datatype EntityCategory = CONFIG | DIAGNOSTIC

record PeblarSelectEntityDescription =
  key :: string
  translation_key :: string
  entity_category :: EntityCategory
  options :: "string list"
  current_fn :: "PeblarUserConfiguration \<Rightarrow> string option"
  select_fn :: "hass \<Rightarrow> string \<Rightarrow> (exn + unit) \<times> hass"

text \<open>
  Lines 32 to 47. A member of the enumeration is a string, so the test of line 44 holds
  of a member whose value is not empty. The client that \<open>select_fn\<close> receives is the
  one held in the host state.
\<close>

definition DESCRIPTIONS :: "PeblarSelectEntityDescription list" where
  "DESCRIPTIONS =
     [\<lparr>key = ''smart_charging'',
       translation_key = ''smart_charging'',
       entity_category = CONFIG,
       options = [''default'', ''fast_solar'', ''pure_solar'', ''scheduled'', ''smart_solar''],
       current_fn =
         (\<lambda>x. case smart_charging x of
                None \<Rightarrow> None
              | Some m \<Rightarrow>
                  if SmartChargingMode_value m \<noteq> []
                  then Some (SmartChargingMode_value m) else None),
       select_fn =
         (\<lambda>x mode. case SmartChargingMode_of mode of
                      Inl err \<Rightarrow> (Inl err, x)
                    | Inr m \<Rightarrow> peblar_smart_charging m x)\<rparr>]"

record PeblarSelectEntity =
  entity_description :: PeblarSelectEntityDescription
  attr_unique_id :: string
  attr_device_info :: "(string \<times> string) set"

text \<open>
  Lines 74 to 87. The entity's coordinator is the object held by the runtime data
  (line 80); in the model the entity reaches it through the host state, so that the
  entity and the runtime data see the same coordinator.
\<close>

definition PeblarSelectEntity_init ::
  "PeblarConfigEntry \<Rightarrow> PeblarSelectEntityDescription \<Rightarrow> exn + PeblarSelectEntity" where
  "PeblarSelectEntity_init e description =
     (case runtime_data e of
        None \<Rightarrow> Inl (AttributeError ''runtime_data'')
      | Some rd \<Rightarrow>
          Inr \<lparr>entity_description = description,
               attr_unique_id = unique_id e @ ''-'' @ key description,
               attr_device_info = {(DOMAIN, product_serial_number (system_information rd))}\<rparr>)"

text \<open>Lines 89 to 92; a coordinator without a snapshot has \<^verbatim>\<open>data\<close> None.\<close>

definition current_option :: "PeblarSelectEntity \<Rightarrow> hass \<Rightarrow> exn + string option" where
  "current_option self h =
     (case runtime_data (entry h) of
        None \<Rightarrow> Inl (AttributeError ''runtime_data'')
      | Some rd \<Rightarrow>
     (case data (user_configuraton_coordinator rd) of
        None \<Rightarrow> Inl (AttributeError ''smart_charging'')
      | Some x \<Rightarrow> Inr (current_fn (entity_description self) x)))"

text \<open>
  Modelled from the spec: one refresh of one of the three coordinators held by the
  runtime data, against the charger \<open>p\<close> (section 4.2): the coordinator calls its own
  fetch and takes the outcome as \<open>refresh\<close> says.
\<close>

definition async_refresh ::
  "coordinator_id \<Rightarrow> peblar \<Rightarrow> PeblarRuntimeData \<Rightarrow> PeblarRuntimeData" where
  "async_refresh c p rd =
     (case c of
        Meter \<Rightarrow> rd\<lparr>data_coordinator := refresh (meter_result p) (data_coordinator rd)\<rparr>
      | UserConfiguration \<Rightarrow>
          rd\<lparr>user_configuraton_coordinator :=
               refresh (fetch_user_configuration p) (user_configuraton_coordinator rd)\<rparr>
      | Version \<Rightarrow>
          rd\<lparr>version_coordinator := refresh (versions_result p) (version_coordinator rd)\<rparr>)"

text \<open>
  Modelled from the spec: the request of a refresh forces one out-of-band refresh of
  the user-configuration coordinator (section 4.3); a failure of the fetch is recorded
  by the coordinator and not raised (section 7).
\<close>

definition async_request_refresh :: "hass \<Rightarrow> (exn + unit) \<times> hass" where
  "async_request_refresh h =
     (case runtime_data (entry h) of
        None \<Rightarrow> (Inl (AttributeError ''runtime_data''), h)
      | Some rd \<Rightarrow>
          (Inr (),
           called UserConfigurationFetch
             (called RequestRefresh
                (h\<lparr>entry := (entry h)
                    \<lparr>runtime_data :=
                       Some (async_refresh UserConfiguration (charger h) rd)\<rparr>\<rparr>))))"

text \<open>Lines 94 to 97.\<close>

definition async_select_option ::
  "PeblarSelectEntity \<Rightarrow> string \<Rightarrow> hass \<Rightarrow> (exn + unit) \<times> hass" where
  "async_select_option self opt h =
     (case select_fn (entity_description self) h opt of
        (Inl err, h1) \<Rightarrow> (Inl err, h1)
      | (Inr _, h1) \<Rightarrow> async_request_refresh h1)"

subsection \<open>Orderings on the record of calls\<close>

text \<open>\<open>b\<close> occurs in the list, and \<open>a\<close> occurs ahead of the first \<open>b\<close>.\<close>

definition before :: "'a \<Rightarrow> 'a \<Rightarrow> 'a list \<Rightarrow> bool" where
  "before a b xs = (a \<in> set (takeWhile (\<lambda>x. x \<noteq> b) xs) \<and> b \<in> set xs)"

subsection \<open>A concrete charger and host\<close>

definition example_information :: PeblarSystemInformation where
  "example_information =
     \<lparr>product_serial_number = ''ABC123'',
      product_vendor_name = ''Peblar'',
      product_number = ''6004-2300-8002'',
      product_model_name = ''WLAC1-H11R0WE0ICR00'',
      ethernet_mac_address = ''aa:bb:cc:dd:ee:ff'',
      wlan_mac_address = ''11:22:33:44:55:66''\<rparr>"

definition example_versions :: PeblarVersionInformation where
  "example_versions =
     \<lparr>current = \<lparr>firmware = Some ''1.6.1'', customization = None\<rparr>,
      available = \<lparr>firmware = Some ''1.6.2'', customization = None\<rparr>\<rparr>"

definition example_finished :: "coordinator_id \<Rightarrow> nat" where
  "example_finished c = (case c of Meter \<Rightarrow> 2 | UserConfiguration \<Rightarrow> 1 | Version \<Rightarrow> 3)"

definition example_charger :: peblar where
  "example_charger =
     \<lparr>login_fault = None,
      system_information_result = Inr example_information,
      rest_api_fault = None,
      meter_result = Inr \<lparr>meter_power = 0\<rparr>,
      versions_result = Inr example_versions,
      user_configuration_fault = None,
      smart_charging_fault = None,
      charger_configuration = \<lparr>smart_charging = None\<rparr>,
      finished = example_finished\<rparr>"

definition example_hass :: hass where
  "example_hass =
     \<lparr>entry =
        \<lparr>entry_id = ''01JEDW6TY2RV0VQ91QGVC4TZPZ'',
         unique_id = ''ABC123'',
         entry_data = [CONF_HOST \<mapsto> ''192.0.2.10'', CONF_PASSWORD \<mapsto> ''secret''],
         runtime_data = None\<rparr>,
      charger = example_charger,
      device_registry = [],
      loaded_platforms = {},
      teardown_ok = (\<lambda>p. True),
      open_sessions = 0,
      calls = []\<rparr>"

text \<open>The example host once set up, and its select entity.\<close>

definition example_running :: hass where
  "example_running = snd (async_setup_entry example_hass)"

definition example_entity :: PeblarSelectEntity where
  "example_entity =
     \<lparr>entity_description = hd DESCRIPTIONS,
      attr_unique_id = ''ABC123-smart_charging'',
      attr_device_info = {(DOMAIN, ''ABC123'')}\<rparr>"

text \<open>The same host in front of a charger whose login fails, and of one whose telemetry
  fetch fails.\<close>

definition example_login_failure :: "exn \<Rightarrow> hass" where
  "example_login_failure err =
     example_hass\<lparr>charger := example_charger\<lparr>login_fault := Some err\<rparr>\<rparr>"

definition example_refresh_failure :: hass where
  "example_refresh_failure =
     example_hass\<lparr>charger := example_charger
       \<lparr>meter_result := Inl (ConfigEntryNotReady ''Peblar charger did not respond'' None)\<rparr>\<rparr>"

text \<open>The runtime data of the example host once set up, and that host in front of a
  charger that refuses the write.\<close>

definition example_runtime_data :: PeblarRuntimeData where
  "example_runtime_data =
     \<lparr>data_coordinator = \<lparr>data = Some \<lparr>meter_power = 0\<rparr>, last_exception = None\<rparr>,
      system_information = example_information,
      user_configuraton_coordinator =
        \<lparr>data = Some \<lparr>smart_charging = None\<rparr>, last_exception = None\<rparr>,
      version_coordinator = \<lparr>data = Some example_versions, last_exception = None\<rparr>\<rparr>"

definition example_write_failure :: hass where
  "example_write_failure =
     example_running\<lparr>charger := example_charger\<lparr>smart_charging_fault := Some PeblarConnectionError\<rparr>\<rparr>"

section \<open>Properties\<close>

subsection \<open>The connection phase and the first refreshes\<close>

lemmas client_defs = login_def peblar_system_information_def rest_api_def called_def
  async_create_clientsession_def

lemma connect_result:
  "fst (connect h) =
     (case entry_data (entry h) CONF_PASSWORD of
        None \<Rightarrow> Inl (KeyError CONF_PASSWORD)
      | Some password \<Rightarrow>
     (case login_fault (charger h) of
        Some err \<Rightarrow> Inl err
      | None \<Rightarrow>
     (case system_information_result (charger h) of
        Inl err \<Rightarrow> Inl err
      | Inr information \<Rightarrow>
     (case rest_api_fault (charger h) of
        Some err \<Rightarrow> Inl err
      | None \<Rightarrow> Inr (information, PeblarApi)))))"
  by (simp add: connect_def client_defs split: option.splits sum.splits)

lemma connect_success:
  assumes "entry_data (entry h) CONF_PASSWORD = Some password"
    and "login_fault (charger h) = None"
    and "system_information_result (charger h) = Inr information"
    and "rest_api_fault (charger h) = None"
  shows "connect h =
     (Inr (information, PeblarApi),
      h\<lparr>calls := calls h @ [Login password, SystemInformation, RestApi True READ_WRITE]\<rparr>)"
  using assms by (simp add: connect_def client_defs)

lemma first_refresh_Inr:
  "async_config_entry_first_refresh (Inr d) new_coordinator =
     (None, \<lparr>data = Some d, last_exception = None\<rparr>)"
  by (simp add: async_config_entry_first_refresh_def refresh_def new_coordinator_def)

lemma first_refresh_Inl:
  "async_config_entry_first_refresh (Inl err) new_coordinator =
     (Some err, \<lparr>data = None, last_exception = Some err\<rparr>)"
  by (simp add: async_config_entry_first_refresh_def refresh_def new_coordinator_def)

lemma gather_run_None:
  "snd (gather_run ts) = None \<longleftrightarrow> (\<forall>t \<in> set ts. snd t = None)"
  by (induction ts rule: gather_run.induct) (auto split: prod.splits)

lemma gather_run_Some:
  "snd (gather_run ts) = Some err \<Longrightarrow> \<exists>c. (c, Some err) \<in> set ts"
  by (induction ts rule: gather_run.induct) (auto split: prod.splits)

lemma gather_run_events:
  "\<forall>t \<in> set ts. snd t = None \<Longrightarrow> fst (gather_run ts) = map (\<lambda>t. FirstRefresh (fst t)) ts"
  by (induction ts rule: gather_run.induct) (auto split: prod.splits)

lemma gather_success:
  "fst (gather finish tasks h) = Inr () \<longleftrightarrow> (\<forall>t \<in> set tasks. snd t = None)"
proof -
  have "fst (gather finish tasks h) = Inr () \<longleftrightarrow>
        snd (gather_run (sort_key (\<lambda>t. finish (fst t)) tasks)) = None"
    by (simp add: gather_def split: prod.splits option.splits)
  then show ?thesis by (simp add: gather_run_None)
qed

lemma gather_failure:
  assumes "fst (gather finish tasks h) = Inl err"
  shows "\<exists>c. (c, Some err) \<in> set tasks"
proof -
  have "snd (gather_run (sort_key (\<lambda>t. finish (fst t)) tasks)) = Some err"
    using assms by (simp add: gather_def split: prod.splits option.splits)
  then have "\<exists>c. (c, Some err) \<in> set (sort_key (\<lambda>t. finish (fst t)) tasks)"
    by (rule gather_run_Some)
  then show ?thesis by simp
qed

lemma gather_all_returned:
  assumes "\<forall>t \<in> set tasks. snd t = None"
  shows "gather finish tasks h =
     (Inr (), h\<lparr>calls := calls h @
         map (\<lambda>t. FirstRefresh (fst t)) (sort_key (\<lambda>t. finish (fst t)) tasks)\<rparr>)"
proof -
  let ?ts = "sort_key (\<lambda>t. finish (fst t)) tasks"
  have all: "\<forall>t \<in> set ?ts. snd t = None" using assms by simp
  then have "snd (gather_run ?ts) = None" by (simp add: gather_run_None)
  moreover have "fst (gather_run ?ts) = map (\<lambda>t. FirstRefresh (fst t)) ?ts"
    using all by (rule gather_run_events)
  ultimately show ?thesis
    by (cases "gather_run ?ts") (simp add: gather_def)
qed

lemma connect_unchanged:
  "entry (snd (connect h)) = entry h"
  "charger (snd (connect h)) = charger h"
  "device_registry (snd (connect h)) = device_registry h"
  "loaded_platforms (snd (connect h)) = loaded_platforms h"
  "open_sessions (snd (connect h)) = open_sessions h"
  "teardown_ok (snd (connect h)) = teardown_ok h"
  by (simp_all add: connect_def client_defs split: option.splits sum.splits)

lemma sort_tasks_events:
  "map (\<lambda>t. FirstRefresh (fst t)) (sort_key (\<lambda>t. finish (fst t)) [(a, x), (b, y), (c, z)]) =
   map FirstRefresh (sort_key finish [a, b, c])"
  by simp

lemma setup_success_state:
  assumes host: "entry_data (entry h) CONF_HOST = Some host"
    and pw: "entry_data (entry h) CONF_PASSWORD = Some password"
    and login: "login_fault (charger h) = None"
    and info: "system_information_result (charger h) = Inr information"
    and rest: "rest_api_fault (charger h) = None"
    and meter: "meter_result (charger h) = Inr meter"
    and user: "user_configuration_fault (charger h) = None"
    and vers: "versions_result (charger h) = Inr versions"
  shows "async_setup_entry h =
    (Inr True,
     h\<lparr>entry := (entry h)
         \<lparr>runtime_data := Some
            \<lparr>data_coordinator = \<lparr>data = Some meter, last_exception = None\<rparr>,
             system_information = information,
             user_configuraton_coordinator =
               \<lparr>data = Some (charger_configuration (charger h)), last_exception = None\<rparr>,
             version_coordinator = \<lparr>data = Some versions, last_exception = None\<rparr>\<rparr>\<rparr>,
       device_registry := device_registry h @
         [\<lparr>config_entry_id = entry_id (entry h),
           configuration_url = ''http://'' @ host,
           connections =
             {(CONNECTION_NETWORK_MAC, ethernet_mac_address information),
              (CONNECTION_NETWORK_MAC, wlan_mac_address information)},
           identifiers = {(DOMAIN, product_serial_number information)},
           manufacturer = product_vendor_name information,
           model_id = product_number information,
           model = product_model_name information,
           name = ''Peblar EV Charger'',
           serial_number = product_serial_number information,
           sw_version = firmware (current versions)\<rparr>],
       loaded_platforms := loaded_platforms h \<union> set PLATFORMS,
       open_sessions := Suc (open_sessions h),
       calls := calls h @
         [CreateClientSession, Login password, SystemInformation, RestApi True READ_WRITE,
          Construct Meter, Construct UserConfiguration, Construct Version] @
         map FirstRefresh (sort_key (finished (charger h)) [Meter, UserConfiguration, Version]) @
         [StoreRuntimeData, RegisterDevice, ForwardEntrySetups PLATFORMS]\<rparr>)"
proof -
  let ?h0 = "async_create_clientsession h"
  let ?h1 = "?h0\<lparr>calls := calls ?h0 @ [Login password, SystemInformation, RestApi True READ_WRITE]\<rparr>"
  let ?h2 = "called (Construct Version)
                 (called (Construct UserConfiguration) (called (Construct Meter) ?h1))"
  let ?tasks = "[(Meter, None), (UserConfiguration, None), (Version, None :: exn option)]"
  have conn: "connect ?h0 = (Inr (information, PeblarApi), ?h1)"
    using pw login info rest
    by (intro connect_success) (simp_all add: async_create_clientsession_def called_def)
  have ch: "charger ?h2 = charger h"
    by (simp add: async_create_clientsession_def called_def)
  have fu: "fetch_user_configuration (charger h) = Inr (charger_configuration (charger h))"
    using user by (simp add: fetch_user_configuration_def)
  have g: "gather (finished (charger h)) ?tasks ?h2 =
     (Inr (), ?h2\<lparr>calls := calls ?h2 @
         map FirstRefresh (sort_key (finished (charger h)) [Meter, UserConfiguration, Version])\<rparr>)"
    by (subst gather_all_returned) (simp_all only: sort_tasks_events, simp_all)
  show ?thesis
    unfolding async_setup_entry_def
    by (simp add: host conn ch fu meter vers first_refresh_Inr g Let_def
        del: sort_key_simps)
       (simp add: async_create_clientsession_def called_def async_get_or_create_def
          async_forward_entry_setups_def)
qed

lemma first_refresh_pair:
  "async_config_entry_first_refresh fetched new_coordinator =
     ((case fetched of Inl err \<Rightarrow> Some err | Inr d \<Rightarrow> None), refresh fetched new_coordinator)"
  by (simp add: async_config_entry_first_refresh_def refresh_def new_coordinator_def
      split: sum.splits)

lemma gather_pair:
  "gather finish tasks h =
     ((case snd (gather_run (sort_key (\<lambda>t. finish (fst t)) tasks)) of
         None \<Rightarrow> Inr () | Some err \<Rightarrow> Inl err),
      h\<lparr>calls := calls h @ fst (gather_run (sort_key (\<lambda>t. finish (fst t)) tasks))\<rparr>)"
  by (simp add: gather_def split: prod.splits option.splits)

lemma setup_result:
  "fst (async_setup_entry h) =
     (case entry_data (entry h) CONF_HOST of
        None \<Rightarrow> Inl (KeyError CONF_HOST)
      | Some host \<Rightarrow>
     (case fst (connect (async_create_clientsession h)) of
        Inl err \<Rightarrow> Inl (except_clauses err)
      | Inr _ \<Rightarrow>
     (case snd (gather_run (sort_key (\<lambda>t. finished (charger h) (fst t))
              [(Meter, case meter_result (charger h) of Inl err \<Rightarrow> Some err | Inr d \<Rightarrow> None),
               (UserConfiguration,
                case fetch_user_configuration (charger h) of Inl err \<Rightarrow> Some err | Inr d \<Rightarrow> None),
               (Version,
                case versions_result (charger h) of Inl err \<Rightarrow> Some err | Inr d \<Rightarrow> None)])) of
        Some err \<Rightarrow> Inl err
      | None \<Rightarrow> Inr True)))"
proof (cases "entry_data (entry h) CONF_HOST")
  case None
  then show ?thesis by (simp add: async_setup_entry_def)
next
  case (Some host)
  let ?h0 = "async_create_clientsession h"
  obtain r h1 where conn: "connect ?h0 = (r, h1)" by (cases "connect ?h0")
  have ch: "charger h1 = charger h"
    using connect_unchanged(2)[of ?h0] conn by (simp add: async_create_clientsession_def called_def)
  show ?thesis
  proof (cases r)
    case (Inl err)
    then show ?thesis using Some conn by (simp add: async_setup_entry_def)
  next
    case (Inr p)
    obtain information api where p: "p = (information, api)" by (cases p)
    let ?tasks = "[(Meter, case meter_result (charger h) of Inl err \<Rightarrow> Some err | Inr d \<Rightarrow> None),
               (UserConfiguration,
                case fetch_user_configuration (charger h) of Inl err \<Rightarrow> Some err | Inr d \<Rightarrow> None),
               (Version,
                case versions_result (charger h) of Inl err \<Rightarrow> Some err | Inr d \<Rightarrow> None)]"
    let ?run = "gather_run (sort_key (\<lambda>t. finished (charger h) (fst t)) ?tasks)"
    show ?thesis
    proof (cases "snd ?run")
      case None
      then have "\<forall>t \<in> set ?tasks. snd t = None"
        by (simp only: gather_run_None set_sort)
      then have "\<exists>versions. versions_result (charger h) = Inr versions"
        by (simp split: sum.splits)
      then obtain versions where v: "versions_result (charger h) = Inr versions" ..
      show ?thesis
        using Some conn Inr p ch None v
        by (simp add: async_setup_entry_def Let_def called_def first_refresh_pair gather_pair
            del: sort_key_simps)
           (simp add: refresh_def new_coordinator_def)
    next
      case (Some err)
      show ?thesis
        using \<open>entry_data (entry h) CONF_HOST = Some host\<close> conn Inr p ch Some
        by (simp add: async_setup_entry_def Let_def called_def first_refresh_pair gather_pair
            del: sort_key_simps)
    qed
  qed
qed

lemma setup_failure_state:
  assumes "fst (async_setup_entry h) = Inl err"
  shows "entry (snd (async_setup_entry h)) = entry h
       \<and> device_registry (snd (async_setup_entry h)) = device_registry h
       \<and> loaded_platforms (snd (async_setup_entry h)) = loaded_platforms h"
proof (cases "entry_data (entry h) CONF_HOST")
  case None
  then show ?thesis by (simp add: async_setup_entry_def)
next
  case (Some host)
  let ?h0 = "async_create_clientsession h"
  obtain r h1 where conn: "connect ?h0 = (r, h1)" by (cases "connect ?h0")
  have h1: "charger h1 = charger h" "entry h1 = entry h" "device_registry h1 = device_registry h"
    "loaded_platforms h1 = loaded_platforms h"
    using connect_unchanged[of ?h0] conn by (simp_all add: async_create_clientsession_def called_def)
  show ?thesis
  proof (cases r)
    case (Inl e)
    then show ?thesis using Some conn h1 by (simp add: async_setup_entry_def)
  next
    case (Inr p)
    obtain information api where p: "p = (information, api)" by (cases p)
    let ?tasks = "[(Meter, case meter_result (charger h) of Inl err \<Rightarrow> Some err | Inr d \<Rightarrow> None),
               (UserConfiguration,
                case fetch_user_configuration (charger h) of Inl err \<Rightarrow> Some err | Inr d \<Rightarrow> None),
               (Version,
                case versions_result (charger h) of Inl err \<Rightarrow> Some err | Inr d \<Rightarrow> None)]"
    let ?run = "gather_run (sort_key (\<lambda>t. finished (charger h) (fst t)) ?tasks)"
    have "fst (connect ?h0) = Inr p" using conn Inr by simp
    then have res: "fst (async_setup_entry h) =
        (case snd ?run of Some err \<Rightarrow> Inl err | None \<Rightarrow> Inr True)"
      using Some by (simp add: setup_result del: sort_key_simps)
    then obtain e where e: "snd ?run = Some e"
      using assms by (cases "snd ?run") simp_all
    show ?thesis
      using Some conn Inr p h1 e
      by (simp add: async_setup_entry_def Let_def called_def first_refresh_pair gather_pair
            del: sort_key_simps)
  qed
qed

lemma setup_success_conditions:
  assumes "fst (async_setup_entry h) = Inr True"
  shows "\<exists>host password information meter versions.
           entry_data (entry h) CONF_HOST = Some host
         \<and> entry_data (entry h) CONF_PASSWORD = Some password
         \<and> login_fault (charger h) = None
         \<and> system_information_result (charger h) = Inr information
         \<and> rest_api_fault (charger h) = None
         \<and> meter_result (charger h) = Inr meter
         \<and> user_configuration_fault (charger h) = None
         \<and> versions_result (charger h) = Inr versions"
proof -
  let ?tasks = "[(Meter, case meter_result (charger h) of Inl err \<Rightarrow> Some err | Inr d \<Rightarrow> None),
               (UserConfiguration,
                case fetch_user_configuration (charger h) of Inl err \<Rightarrow> Some err | Inr d \<Rightarrow> None),
               (Version,
                case versions_result (charger h) of Inl err \<Rightarrow> Some err | Inr d \<Rightarrow> None)]"
  let ?run = "gather_run (sort_key (\<lambda>t. finished (charger h) (fst t)) ?tasks)"
  let ?h0 = "async_create_clientsession h"
  obtain host where host: "entry_data (entry h) CONF_HOST = Some host"
    using assms by (cases "entry_data (entry h) CONF_HOST") (simp_all add: setup_result)
  obtain p where p: "fst (connect ?h0) = Inr p"
    using assms host by (cases "fst (connect ?h0)") (simp_all add: setup_result)
  have run: "snd ?run = None"
    using assms host p by (cases "snd ?run") (simp_all add: setup_result del: sort_key_simps)
  have c: "\<exists>password information.
           entry_data (entry h) CONF_PASSWORD = Some password
         \<and> login_fault (charger h) = None
         \<and> system_information_result (charger h) = Inr information
         \<and> rest_api_fault (charger h) = None"
    using p
    by (auto simp add: connect_result async_create_clientsession_def called_def
        split: option.splits sum.splits)
  have r: "\<exists>meter versions.
           meter_result (charger h) = Inr meter
         \<and> user_configuration_fault (charger h) = None
         \<and> versions_result (charger h) = Inr versions"
    using run
    by (simp only: gather_run_None set_sort)
       (auto simp add: fetch_user_configuration_def split: sum.splits option.splits)
  show ?thesis using host c r by blast
qed

lemma coordinator_id_sorted:
  "set (sort_key finish [Meter, UserConfiguration, Version]) = UNIV"
proof -
  have "(UNIV :: coordinator_id set) = {Meter, UserConfiguration, Version}"
    using coordinator_id.exhaust by auto
  then show ?thesis by (simp only: set_sort) simp
qed

lemma setup_order:
  assumes rs: "set rs = (UNIV :: coordinator_id set)"
    and evs: "evs = [CreateClientSession, Login password, SystemInformation, RestApi True READ_WRITE,
          Construct Meter, Construct UserConfiguration, Construct Version] @
         map FirstRefresh rs @
         [StoreRuntimeData, RegisterDevice, ForwardEntrySetups PLATFORMS]"
  shows "before (Login password) SystemInformation evs"
    and "before SystemInformation (RestApi True READ_WRITE) evs"
    and "before (Login password) (Construct c) evs"
    and "before SystemInformation (Construct c) evs"
    and "before (RestApi True READ_WRITE) (Construct c) evs"
    and "before (FirstRefresh c) RegisterDevice evs"
    and "count_list evs RegisterDevice = 1"
    and "before RegisterDevice (ForwardEntrySetups PLATFORMS) evs"
proof -
  have c: "c \<in> set rs" using rs by simp
  show "before (Login password) SystemInformation evs"
    "before SystemInformation (RestApi True READ_WRITE) evs"
    "before RegisterDevice (ForwardEntrySetups PLATFORMS) evs"
    unfolding evs by (auto simp add: before_def takeWhile_append)
  show "before (Login password) (Construct c) evs"
    "before SystemInformation (Construct c) evs"
    "before (RestApi True READ_WRITE) (Construct c) evs"
    unfolding evs by (cases c; simp add: before_def)+
  show "before (FirstRefresh c) RegisterDevice evs"
    unfolding evs using c by (auto simp add: before_def takeWhile_append)
  show "count_list evs RegisterDevice = 1"
    unfolding evs by (auto simp add: count_list_0_iff)
qed

subsection \<open>The select entity\<close>

lemma SmartChargingMode_of_Inr:
  "SmartChargingMode_of opt = Inr m \<Longrightarrow> SmartChargingMode_value m = opt"
  by (auto simp add: SmartChargingMode_of_def split: if_splits)

lemma SmartChargingMode_of_value:
  "SmartChargingMode_of (SmartChargingMode_value m) = Inr m"
  by (cases m) (simp_all add: SmartChargingMode_of_def)

lemma SmartChargingMode_value_nonempty:
  "SmartChargingMode_value m \<noteq> []"
  by (cases m) simp_all

lemma DESCRIPTIONS_select_fn:
  "d \<in> set DESCRIPTIONS \<Longrightarrow>
   select_fn d x mode =
     (case SmartChargingMode_of mode of
        Inl err \<Rightarrow> (Inl err, x)
      | Inr m \<Rightarrow> peblar_smart_charging m x)"
  by (auto simp add: DESCRIPTIONS_def)

lemma DESCRIPTIONS_current_fn:
  "d \<in> set DESCRIPTIONS \<Longrightarrow>
   current_fn d x =
     (case smart_charging x of None \<Rightarrow> None | Some m \<Rightarrow> Some (SmartChargingMode_value m))"
  by (auto simp add: DESCRIPTIONS_def SmartChargingMode_value_nonempty split: option.splits)

subsection \<open>The example host\<close>

lemmas example_defs = example_hass_def example_charger_def example_information_def
  example_versions_def example_finished_def example_login_failure_def example_refresh_failure_def
  CONF_HOST_def CONF_PASSWORD_def

lemma example_setup:
  "async_setup_entry example_hass =
    (Inr True,
     example_hass\<lparr>entry := (entry example_hass)
         \<lparr>runtime_data := Some
            \<lparr>data_coordinator = \<lparr>data = Some \<lparr>meter_power = 0\<rparr>, last_exception = None\<rparr>,
             system_information = example_information,
             user_configuraton_coordinator =
               \<lparr>data = Some \<lparr>smart_charging = None\<rparr>, last_exception = None\<rparr>,
             version_coordinator = \<lparr>data = Some example_versions, last_exception = None\<rparr>\<rparr>\<rparr>,
       device_registry :=
         [\<lparr>config_entry_id = ''01JEDW6TY2RV0VQ91QGVC4TZPZ'',
           configuration_url = ''http://192.0.2.10'',
           connections =
             {(CONNECTION_NETWORK_MAC, ''aa:bb:cc:dd:ee:ff''),
              (CONNECTION_NETWORK_MAC, ''11:22:33:44:55:66'')},
           identifiers = {(DOMAIN, ''ABC123'')},
           manufacturer = ''Peblar'',
           model_id = ''6004-2300-8002'',
           model = ''WLAC1-H11R0WE0ICR00'',
           name = ''Peblar EV Charger'',
           serial_number = ''ABC123'',
           sw_version = Some ''1.6.1''\<rparr>],
       loaded_platforms := set PLATFORMS,
       open_sessions := 1,
       calls :=
         [CreateClientSession, Login ''secret'', SystemInformation, RestApi True READ_WRITE,
          Construct Meter, Construct UserConfiguration, Construct Version,
          FirstRefresh UserConfiguration, FirstRefresh Meter, FirstRefresh Version,
          StoreRuntimeData, RegisterDevice, ForwardEntrySetups PLATFORMS]\<rparr>)"
  by (subst setup_success_state[of example_hass "''192.0.2.10''" "''secret''" example_information
        "\<lparr>meter_power = 0\<rparr>" example_versions])
     (simp_all add: example_defs)

lemma example_running:
  "example_running =
     example_hass\<lparr>entry := (entry example_hass)\<lparr>runtime_data := Some example_runtime_data\<rparr>,
       device_registry :=
         [\<lparr>config_entry_id = ''01JEDW6TY2RV0VQ91QGVC4TZPZ'',
           configuration_url = ''http://192.0.2.10'',
           connections =
             {(CONNECTION_NETWORK_MAC, ''aa:bb:cc:dd:ee:ff''),
              (CONNECTION_NETWORK_MAC, ''11:22:33:44:55:66'')},
           identifiers = {(DOMAIN, ''ABC123'')},
           manufacturer = ''Peblar'',
           model_id = ''6004-2300-8002'',
           model = ''WLAC1-H11R0WE0ICR00'',
           name = ''Peblar EV Charger'',
           serial_number = ''ABC123'',
           sw_version = Some ''1.6.1''\<rparr>],
       loaded_platforms := set PLATFORMS,
       open_sessions := 1,
       calls :=
         [CreateClientSession, Login ''secret'', SystemInformation, RestApi True READ_WRITE,
          Construct Meter, Construct UserConfiguration, Construct Version,
          FirstRefresh UserConfiguration, FirstRefresh Meter, FirstRefresh Version,
          StoreRuntimeData, RegisterDevice, ForwardEntrySetups PLATFORMS]\<rparr>"
  by (simp add: example_running_def example_setup example_runtime_data_def)

lemma example_entity_description:
  "entity_description example_entity \<in> set DESCRIPTIONS"
  by (simp add: example_entity_def DESCRIPTIONS_def)

lemma example_running_runtime_data:
  "runtime_data (entry example_running) = Some example_runtime_data"
  by (simp add: example_running)

lemma example_entity_init:
  "PeblarSelectEntity_init (entry example_running) (hd DESCRIPTIONS) = Inr example_entity"
  by (simp add: PeblarSelectEntity_init_def example_running example_runtime_data_def
      example_entity_def example_defs DESCRIPTIONS_def)

lemmas select_defs = DESCRIPTIONS_select_fn[OF example_entity_description]
  DESCRIPTIONS_current_fn[OF example_entity_description]
  SmartChargingMode_of_def peblar_smart_charging_def example_running example_defs
  example_runtime_data_def example_write_failure_def

lemma unload_platforms_all:
  assumes "list_all (teardown_ok h) platforms"
  shows "set (filter (teardown_ok h) platforms) = set platforms"
  using assms by (simp add: list_all_iff)

section \<open>The claims about setup\<close>

text \<open>
  Claim C1. Whatever the combination of injected errors, the exception that the login,
  the system-information fetch or the REST-API enablement raises is classified by the
  taxonomy: a vendor connection error makes setup fail with ConfigEntryNotReady, a
  vendor authentication error with ConfigEntryAuthFailed, and any other vendor error
  with ConfigEntryNotReady. The hypothesis \<open>raised\<close> says that \<open>err\<close> is the exception
  of the first of the three calls that fails.
\<close>

theorem setup_error_classification:
  assumes host: "entry_data (entry h) CONF_HOST = Some host"
      and pw: "entry_data (entry h) CONF_PASSWORD = Some password"
      and raised: "login_fault (charger h) = Some err
           \<or> (login_fault (charger h) = None
                \<and> system_information_result (charger h) = Inl err)
           \<or> (login_fault (charger h) = None
                \<and> (\<exists>information. system_information_result (charger h) = Inr information)
                \<and> rest_api_fault (charger h) = Some err)"
  shows "(err = PeblarConnectionError \<longrightarrow>
            fst (async_setup_entry h) =
              Inl (ConfigEntryNotReady ''Could not connect to Peblar charger''
                     (Some PeblarConnectionError)))
       \<and> (err = PeblarAuthenticationError \<longrightarrow>
            fst (async_setup_entry h) = Inl (ConfigEntryAuthFailed (Some PeblarAuthenticationError)))
       \<and> (err = PeblarError \<longrightarrow>
            fst (async_setup_entry h) =
              Inl (ConfigEntryNotReady
                     ''Unknown error occurred while connecting to Peblar charger''
                     (Some PeblarError)))"
proof -
  have "fst (connect (async_create_clientsession h)) = Inl err"
    using pw raised
    by (auto simp add: connect_result async_create_clientsession_def called_def)
  then have "fst (async_setup_entry h) = Inl (except_clauses err)"
    using host by (simp add: setup_result del: sort_key_simps)
  then show ?thesis
    by (simp add: except_clauses_def)
qed

theorem setup_error_classification_witness:
  "fst (async_setup_entry (example_login_failure PeblarConnectionError)) =
     Inl (ConfigEntryNotReady ''Could not connect to Peblar charger'' (Some PeblarConnectionError))
   \<and> fst (async_setup_entry (example_login_failure PeblarAuthenticationError)) =
     Inl (ConfigEntryAuthFailed (Some PeblarAuthenticationError))
   \<and> fst (async_setup_entry (example_login_failure PeblarError)) =
     Inl (ConfigEntryNotReady ''Unknown error occurred while connecting to Peblar charger''
            (Some PeblarError))"
  using setup_error_classification[of "example_login_failure PeblarConnectionError"
          "''192.0.2.10''" "''secret''" PeblarConnectionError]
        setup_error_classification[of "example_login_failure PeblarAuthenticationError"
          "''192.0.2.10''" "''secret''" PeblarAuthenticationError]
        setup_error_classification[of "example_login_failure PeblarError"
          "''192.0.2.10''" "''secret''" PeblarError]
  by (simp add: example_defs)

text \<open>
  Claim C2. Once the connection phase has succeeded, setup returns success exactly when
  all three first refreshes succeed; when one of them fails, setup fails, and the
  error that leaves \<open>async_setup_entry\<close> is the error of a failed refresh.
\<close>

theorem first_refresh_failure_fails_setup:
  assumes host: "entry_data (entry h) CONF_HOST = Some host"
      and pw: "entry_data (entry h) CONF_PASSWORD = Some password"
      and login: "login_fault (charger h) = None"
      and info: "system_information_result (charger h) = Inr information"
      and rest: "rest_api_fault (charger h) = None"
  shows "(fst (async_setup_entry h) = Inr True \<longleftrightarrow>
            (\<exists>meter. meter_result (charger h) = Inr meter)
          \<and> user_configuration_fault (charger h) = None
          \<and> (\<exists>versions. versions_result (charger h) = Inr versions))
       \<and> (fst (async_setup_entry h) \<noteq> Inr True \<longrightarrow>
            (\<exists>err. fst (async_setup_entry h) = Inl err
               \<and> (meter_result (charger h) = Inl err
                  \<or> user_configuration_fault (charger h) = Some err
                  \<or> versions_result (charger h) = Inl err)))"
proof -
  let ?tasks = "[(Meter, case meter_result (charger h) of Inl err \<Rightarrow> Some err | Inr d \<Rightarrow> None),
               (UserConfiguration,
                case fetch_user_configuration (charger h) of Inl err \<Rightarrow> Some err | Inr d \<Rightarrow> None),
               (Version,
                case versions_result (charger h) of Inl err \<Rightarrow> Some err | Inr d \<Rightarrow> None)]"
  let ?run = "gather_run (sort_key (\<lambda>t. finished (charger h) (fst t)) ?tasks)"
  have "fst (connect (async_create_clientsession h)) = Inr (information, PeblarApi)"
    using pw login info rest
    by (simp add: connect_result async_create_clientsession_def called_def)
  then have res: "fst (async_setup_entry h) =
        (case snd ?run of Some err \<Rightarrow> Inl err | None \<Rightarrow> Inr True)"
    using host by (simp add: setup_result del: sort_key_simps)
  have ok: "snd ?run = None \<longleftrightarrow>
            (\<exists>meter. meter_result (charger h) = Inr meter)
          \<and> user_configuration_fault (charger h) = None
          \<and> (\<exists>versions. versions_result (charger h) = Inr versions)"
    by (simp only: gather_run_None set_sort)
       (auto simp add: fetch_user_configuration_def split: sum.splits option.splits)
  have bad: "meter_result (charger h) = Inl err
                  \<or> user_configuration_fault (charger h) = Some err
                  \<or> versions_result (charger h) = Inl err" if "snd ?run = Some err" for err
  proof -
    from that obtain c where "(c, Some err) \<in> set (sort_key (\<lambda>t. finished (charger h) (fst t)) ?tasks)"
      using gather_run_Some by blast
    then have "(c, Some err) \<in> set ?tasks" by (simp only: set_sort)
    then show ?thesis
      by (auto simp add: fetch_user_configuration_def split: sum.splits option.splits)
  qed
  show ?thesis
  proof (cases "snd ?run")
    case None
    then show ?thesis using res ok by simp
  next
    case (Some err)
    then show ?thesis using res ok bad[OF Some] by simp
  qed
qed

theorem first_refresh_failure_fails_setup_witness:
  "fst (async_setup_entry example_hass) = Inr True
   \<and> fst (async_setup_entry example_refresh_failure) =
       Inl (ConfigEntryNotReady ''Peblar charger did not respond'' None)"
  using first_refresh_failure_fails_setup[of example_hass "''192.0.2.10''" "''secret''"
          example_information]
        first_refresh_failure_fails_setup[of example_refresh_failure "''192.0.2.10''" "''secret''"
          example_information]
  by (simp add: example_defs)

text \<open>
  Claim C5. After a successful setup the device registry holds one more record; its
  identifiers are the one pair of the domain and the product serial number, and its
  connections are the Ethernet and the WLAN MAC address, each tagged as a network MAC,
  all taken from the system information, which setup fetched exactly once.
\<close>

theorem device_registration_record:
  assumes "fst (async_setup_entry h) = Inr True"
  shows "\<exists>information d.
           system_information_result (charger h) = Inr information
         \<and> device_registry (snd (async_setup_entry h)) = device_registry h @ [d]
         \<and> identifiers d = {(DOMAIN, product_serial_number information)}
         \<and> connections d =
             {(CONNECTION_NETWORK_MAC, ethernet_mac_address information),
              (CONNECTION_NETWORK_MAC, wlan_mac_address information)}
         \<and> count_list (drop (length (calls h)) (calls (snd (async_setup_entry h))))
              SystemInformation = 1"
proof -
  obtain host password information meter versions where c:
    "entry_data (entry h) CONF_HOST = Some host"
    "entry_data (entry h) CONF_PASSWORD = Some password"
    "login_fault (charger h) = None"
    "system_information_result (charger h) = Inr information"
    "rest_api_fault (charger h) = None"
    "meter_result (charger h) = Inr meter"
    "user_configuration_fault (charger h) = None"
    "versions_result (charger h) = Inr versions"
    using setup_success_conditions[OF assms] by blast
  show ?thesis
    by (simp add: setup_success_state[OF c] c(4) count_list_0_iff del: sort_key_simps)
qed

theorem device_registration_record_witness:
  "fst (async_setup_entry example_hass) = Inr True
   \<and> (\<exists>d. device_registry (snd (async_setup_entry example_hass)) = [d]
          \<and> identifiers d = {(DOMAIN, ''ABC123'')}
          \<and> connections d =
               {(CONNECTION_NETWORK_MAC, ''aa:bb:cc:dd:ee:ff''),
                (CONNECTION_NETWORK_MAC, ''11:22:33:44:55:66'')})"
proof -
  have r: "fst (async_setup_entry example_hass) = Inr True"
    by (simp add: example_setup)
  show ?thesis
    using r device_registration_record[OF r] by (auto simp add: example_defs)
qed

text \<open>
  Claim C6. The calls of a successful setup, in their order: the login, then the
  system-information fetch and the REST-API enablement, all before any coordinator is
  constructed; every first refresh completes before the device is registered; the
  device is registered exactly once, and before the platforms are set up. The first
  refreshes complete in the order of their finishing times.
\<close>

theorem setup_steps_in_order:
  assumes "fst (async_setup_entry h) = Inr True"
  shows "\<exists>password evs.
           entry_data (entry h) CONF_PASSWORD = Some password
         \<and> calls (snd (async_setup_entry h)) = calls h @ evs
         \<and> evs = [CreateClientSession, Login password, SystemInformation, RestApi True READ_WRITE,
                   Construct Meter, Construct UserConfiguration, Construct Version] @
                  map FirstRefresh
                    (sort_key (finished (charger h)) [Meter, UserConfiguration, Version]) @
                  [StoreRuntimeData, RegisterDevice, ForwardEntrySetups PLATFORMS]
         \<and> before (Login password) SystemInformation evs
         \<and> before SystemInformation (RestApi True READ_WRITE) evs
         \<and> (\<forall>c. before (Login password) (Construct c) evs
                \<and> before SystemInformation (Construct c) evs
                \<and> before (RestApi True READ_WRITE) (Construct c) evs
                \<and> before (FirstRefresh c) RegisterDevice evs)
         \<and> count_list evs RegisterDevice = 1
         \<and> before RegisterDevice (ForwardEntrySetups PLATFORMS) evs"
proof -
  obtain host password information meter versions where c:
    "entry_data (entry h) CONF_HOST = Some host"
    "entry_data (entry h) CONF_PASSWORD = Some password"
    "login_fault (charger h) = None"
    "system_information_result (charger h) = Inr information"
    "rest_api_fault (charger h) = None"
    "meter_result (charger h) = Inr meter"
    "user_configuration_fault (charger h) = None"
    "versions_result (charger h) = Inr versions"
    using setup_success_conditions[OF assms] by blast
  define rs where "rs = sort_key (finished (charger h)) [Meter, UserConfiguration, Version]"
  define evs where "evs = [CreateClientSession, Login password, SystemInformation, RestApi True READ_WRITE,
          Construct Meter, Construct UserConfiguration, Construct Version] @
         map FirstRefresh rs @
         [StoreRuntimeData, RegisterDevice, ForwardEntrySetups PLATFORMS]"
  have rs: "set rs = UNIV" unfolding rs_def by (rule coordinator_id_sorted)
  have calls: "calls (snd (async_setup_entry h)) = calls h @ evs"
    by (simp add: setup_success_state[OF c] evs_def rs_def del: sort_key_simps)
  note o = setup_order[OF rs evs_def]
  show ?thesis
    using c(2) calls evs_def[unfolded rs_def] o by blast
qed

theorem setup_steps_in_order_witness:
  "fst (async_setup_entry example_hass) = Inr True
   \<and> before (Login ''secret'') SystemInformation (calls (snd (async_setup_entry example_hass)))
   \<and> before (RestApi True READ_WRITE) (Construct Meter)
        (calls (snd (async_setup_entry example_hass)))
   \<and> before (FirstRefresh Version) RegisterDevice (calls (snd (async_setup_entry example_hass)))
   \<and> count_list (calls (snd (async_setup_entry example_hass))) RegisterDevice = 1
   \<and> before RegisterDevice (ForwardEntrySetups PLATFORMS)
        (calls (snd (async_setup_entry example_hass)))"
proof -
  have r: "fst (async_setup_entry example_hass) = Inr True"
    by (simp add: example_setup)
  show ?thesis
    using r setup_steps_in_order[OF r] by (auto simp add: example_defs)
qed

text \<open>
  Claim C10. A setup run that fails never assigns the runtime data of the entry,
  registers no device and sets up no entity platform. A run fails in the lookup of the
  host or the password, in the connection phase or in a first refresh; the calls to
  the device registry and to the platform loader are modelled as calls that return.
  The client session opened at line 48 and the record of calls are no part of the
  three.
\<close>

theorem failed_setup_changes_nothing:
  assumes "fst (async_setup_entry h) = Inl err"
  shows "runtime_data (entry (snd (async_setup_entry h))) = runtime_data (entry h)
       \<and> device_registry (snd (async_setup_entry h)) = device_registry h
       \<and> loaded_platforms (snd (async_setup_entry h)) = loaded_platforms h"
  using setup_failure_state[OF assms] by simp

theorem failed_setup_changes_nothing_witness:
  "fst (async_setup_entry (example_login_failure PeblarAuthenticationError)) =
     Inl (ConfigEntryAuthFailed (Some PeblarAuthenticationError))
   \<and> runtime_data (entry (snd (async_setup_entry (example_login_failure PeblarAuthenticationError)))) = None
   \<and> device_registry (snd (async_setup_entry (example_login_failure PeblarAuthenticationError))) = []
   \<and> loaded_platforms (snd (async_setup_entry (example_login_failure PeblarAuthenticationError))) = {}"
proof -
  have r: "fst (async_setup_entry (example_login_failure PeblarAuthenticationError)) =
     Inl (ConfigEntryAuthFailed (Some PeblarAuthenticationError))"
    by (simp add: setup_result connect_result except_clauses_def client_defs example_defs)
  show ?thesis
    using r failed_setup_changes_nothing[OF r] by (simp add: example_defs)
qed

section \<open>The claims about the select entity and the coordinators\<close>

text \<open>
  Claim C3. When the write of a select option succeeds, \<open>async_select_option\<close> has
  called the write accessor with exactly the chosen option: the client receives the
  mode whose value is that string, and nothing else is written. It then requests one
  refresh of the user-configuration coordinator, and only one. When the fetch of that
  refresh succeeds, the coordinator's snapshot holds the new mode and the current
  option is the chosen one, with no scheduled refresh in between.
\<close>

theorem select_option_writes_then_refreshes:
  assumes d: "entity_description self \<in> set DESCRIPTIONS"
    and rd: "runtime_data (entry h) = Some rd"
    and written: "fst (select_fn (entity_description self) h opt) = Inr ()"
  shows "\<exists>mode rd'.
           SmartChargingMode_value mode = opt
         \<and> fst (async_select_option self opt h) = Inr ()
         \<and> calls (snd (async_select_option self opt h)) =
             calls h @ [SmartCharging mode, RequestRefresh, UserConfigurationFetch]
         \<and> runtime_data (entry (snd (async_select_option self opt h))) = Some rd'
         \<and> (user_configuration_fault (charger h) = None \<longrightarrow>
              data (user_configuraton_coordinator rd') =
                Some ((charger_configuration (charger h))\<lparr>smart_charging := Some mode\<rparr>)
            \<and> current_option self (snd (async_select_option self opt h)) = Inr (Some opt))"
proof -
  obtain mode where mode: "SmartChargingMode_of opt = Inr mode"
    using written by (cases "SmartChargingMode_of opt") (simp_all add: DESCRIPTIONS_select_fn[OF d])
  have v: "SmartChargingMode_value mode = opt"
    using mode by (rule SmartChargingMode_of_Inr)
  have nofault: "smart_charging_fault (charger h) = None"
    using written mode
    by (cases "smart_charging_fault (charger h)")
       (simp_all add: DESCRIPTIONS_select_fn[OF d] peblar_smart_charging_def)
  show ?thesis
    using v mode nofault rd
    by (simp add: async_select_option_def DESCRIPTIONS_select_fn[OF d] peblar_smart_charging_def
        async_request_refresh_def async_refresh_def called_def current_option_def
        DESCRIPTIONS_current_fn[OF d] refresh_def fetch_user_configuration_def)
qed

theorem select_option_writes_then_refreshes_witness:
  "fst (async_select_option example_entity ''pure_solar'' example_running) = Inr ()
   \<and> calls (snd (async_select_option example_entity ''pure_solar'' example_running)) =
       calls example_running @ [SmartCharging PURE_SOLAR, RequestRefresh, UserConfigurationFetch]
   \<and> current_option example_entity
        (snd (async_select_option example_entity ''pure_solar'' example_running)) =
       Inr (Some ''pure_solar'')"
proof -
  have w: "fst (select_fn (entity_description example_entity) example_running ''pure_solar'') = Inr ()"
    by (simp add: select_defs)
  have fault: "user_configuration_fault (charger example_running) = None"
    by (simp add: example_running example_defs)
  have inj: "SmartChargingMode_value mode = ''pure_solar'' \<Longrightarrow> mode = PURE_SOLAR" for mode
    by (cases mode) simp_all
  show ?thesis
    using select_option_writes_then_refreshes[OF example_entity_description
            example_running_runtime_data w] fault inj
    by auto
qed

text \<open>
  Claim C4. For every snapshot of the user configuration whose smart-charging field is
  unset, \<open>current_option\<close> returns None and raises nothing; when the field is set, it
  returns the string value of the field.
\<close>

theorem current_option_of_snapshot:
  assumes d: "entity_description self \<in> set DESCRIPTIONS"
    and rd: "runtime_data (entry h) = Some rd"
    and snapshot: "data (user_configuraton_coordinator rd) = Some x"
  shows "(smart_charging x = None \<longrightarrow> current_option self h = Inr None)
       \<and> (\<forall>m. smart_charging x = Some m \<longrightarrow>
              current_option self h = Inr (Some (SmartChargingMode_value m)))"
  using rd snapshot by (simp add: current_option_def DESCRIPTIONS_current_fn[OF d])

theorem current_option_of_snapshot_witness:
  "current_option example_entity example_running = Inr None
   \<and> current_option example_entity
        (snd (async_select_option example_entity ''pure_solar'' example_running)) =
       Inr (Some ''pure_solar'')"
proof -
  let ?h = "snd (async_select_option example_entity ''pure_solar'' example_running)"
  have rd: "runtime_data (entry ?h) =
      Some (example_runtime_data\<lparr>user_configuraton_coordinator :=
              \<lparr>data = Some \<lparr>smart_charging = Some PURE_SOLAR\<rparr>, last_exception = None\<rparr>\<rparr>)"
    by (simp add: async_select_option_def async_request_refresh_def async_refresh_def
        refresh_def fetch_user_configuration_def called_def select_defs)
  show ?thesis
    using current_option_of_snapshot[OF example_entity_description example_running_runtime_data,
            of "\<lparr>smart_charging = None\<rparr>"]
          current_option_of_snapshot[OF example_entity_description rd,
            of "\<lparr>smart_charging = Some PURE_SOLAR\<rparr>"]
    by (simp add: example_runtime_data_def)
qed

text \<open>
  Claim C7. When the write accessor raises, whether the option is no mode at all or
  the charger refuses the write, the error reaches the caller of
  \<open>async_select_option\<close>, no refresh is requested and nothing is fetched, and the
  runtime data with the coordinator's cached snapshot is unchanged.
\<close>

theorem failed_write_requests_no_refresh:
  assumes d: "entity_description self \<in> set DESCRIPTIONS"
    and raised: "fst (select_fn (entity_description self) h opt) = Inl err"
  shows "fst (async_select_option self opt h) = Inl err
       \<and> runtime_data (entry (snd (async_select_option self opt h))) = runtime_data (entry h)
       \<and> (\<exists>evs. calls (snd (async_select_option self opt h)) = calls h @ evs
              \<and> RequestRefresh \<notin> set evs \<and> UserConfigurationFetch \<notin> set evs)"
  using raised
  by (auto simp add: async_select_option_def DESCRIPTIONS_select_fn[OF d]
        peblar_smart_charging_def called_def split: sum.splits option.splits)

theorem failed_write_requests_no_refresh_witness:
  "fst (async_select_option example_entity ''pure_solar'' example_write_failure) =
     Inl PeblarConnectionError
   \<and> runtime_data (entry (snd (async_select_option example_entity ''pure_solar''
        example_write_failure))) = Some example_runtime_data
   \<and> RequestRefresh \<notin> set (calls (snd (async_select_option example_entity ''pure_solar''
        example_write_failure)))"
proof -
  have w: "fst (select_fn (entity_description example_entity) example_write_failure ''pure_solar'') =
      Inl PeblarConnectionError"
    by (simp add: select_defs)
  have c: "RequestRefresh \<notin> set (calls example_write_failure)"
    "runtime_data (entry example_write_failure) = Some example_runtime_data"
    by (simp_all add: example_write_failure_def example_running)
  show ?thesis
    using failed_write_requests_no_refresh[OF example_entity_description w] c
    by auto
qed

text \<open>
  Claim C8. For each of the three coordinators and every refresh: when the fetch
  succeeds, the cached snapshot is replaced by what was fetched and the error state is
  reset; when the fetch fails, the snapshot is the one held before and the error is
  recorded.
\<close>

theorem refresh_keeps_last_good_snapshot:
  "(\<forall>d. meter_result p = Inr d \<longrightarrow>
        data (data_coordinator (async_refresh Meter p rd)) = Some d
      \<and> last_exception (data_coordinator (async_refresh Meter p rd)) = None)
 \<and> (\<forall>err. meter_result p = Inl err \<longrightarrow>
        data (data_coordinator (async_refresh Meter p rd)) = data (data_coordinator rd)
      \<and> last_exception (data_coordinator (async_refresh Meter p rd)) = Some err)
 \<and> (\<forall>d. fetch_user_configuration p = Inr d \<longrightarrow>
        data (user_configuraton_coordinator (async_refresh UserConfiguration p rd)) = Some d
      \<and> last_exception (user_configuraton_coordinator (async_refresh UserConfiguration p rd)) = None)
 \<and> (\<forall>err. fetch_user_configuration p = Inl err \<longrightarrow>
        data (user_configuraton_coordinator (async_refresh UserConfiguration p rd)) =
          data (user_configuraton_coordinator rd)
      \<and> last_exception (user_configuraton_coordinator (async_refresh UserConfiguration p rd)) =
          Some err)
 \<and> (\<forall>d. versions_result p = Inr d \<longrightarrow>
        data (version_coordinator (async_refresh Version p rd)) = Some d
      \<and> last_exception (version_coordinator (async_refresh Version p rd)) = None)
 \<and> (\<forall>err. versions_result p = Inl err \<longrightarrow>
        data (version_coordinator (async_refresh Version p rd)) = data (version_coordinator rd)
      \<and> last_exception (version_coordinator (async_refresh Version p rd)) = Some err)"
  by (simp add: async_refresh_def refresh_def)

theorem refresh_keeps_last_good_snapshot_witness:
  "data (data_coordinator
      (async_refresh Meter (charger example_refresh_failure) example_runtime_data)) =
     Some \<lparr>meter_power = 0\<rparr>
   \<and> last_exception (data_coordinator
      (async_refresh Meter (charger example_refresh_failure) example_runtime_data)) =
     Some (ConfigEntryNotReady ''Peblar charger did not respond'' None)
   \<and> data (version_coordinator
      (async_refresh Version (charger example_refresh_failure) example_runtime_data)) =
     Some example_versions"
  using refresh_keeps_last_good_snapshot[of "charger example_refresh_failure" example_runtime_data]
  by (simp add: example_defs example_runtime_data_def)

section \<open>The claim about unload\<close>

text \<open>
  Claim C9. For an entry that has been set up, \<open>async_unload_entry\<close> asks for the
  teardown of the very platforms that setup forwarded to, and returns the success of
  that teardown. It leaves the session as it is; the release of the session is the
  host's part of the unload, which happens once the teardown has succeeded: then
  none of the platforms remains and no session of the entry is open.
\<close>

theorem unload_tears_down_what_setup_forwarded:
  assumes "fst (async_setup_entry h0) = Inr True"
    and "h = snd (async_setup_entry h0)"
  shows "fst (async_unload_entry h) = list_all (teardown_ok h) PLATFORMS
       \<and> calls (snd (async_unload_entry h)) = calls h @ [UnloadPlatforms PLATFORMS]
       \<and> open_sessions (snd (async_unload_entry h)) = open_sessions h
       \<and> last (calls h) = ForwardEntrySetups PLATFORMS
       \<and> loaded_platforms h = loaded_platforms h0 \<union> set PLATFORMS
       \<and> open_sessions h = Suc (open_sessions h0)
       \<and> (list_all (teardown_ok h) PLATFORMS \<longrightarrow>
            fst (unload h) = True
          \<and> loaded_platforms (snd (unload h)) = loaded_platforms h0 - set PLATFORMS
          \<and> open_sessions (snd (unload h)) = 0)"
proof -
  obtain host password information meter versions where c:
    "entry_data (entry h0) CONF_HOST = Some host"
    "entry_data (entry h0) CONF_PASSWORD = Some password"
    "login_fault (charger h0) = None"
    "system_information_result (charger h0) = Inr information"
    "rest_api_fault (charger h0) = None"
    "meter_result (charger h0) = Inr meter"
    "user_configuration_fault (charger h0) = None"
    "versions_result (charger h0) = Inr versions"
    using setup_success_conditions[OF assms(1)] by blast
  have h: "loaded_platforms h = loaded_platforms h0 \<union> set PLATFORMS"
    "open_sessions h = Suc (open_sessions h0)"
    "last (calls h) = ForwardEntrySetups PLATFORMS"
    unfolding assms(2) by (simp_all add: setup_success_state[OF c] del: sort_key_simps)
  have u: "fst (async_unload_entry h) = list_all (teardown_ok h) PLATFORMS"
    "calls (snd (async_unload_entry h)) = calls h @ [UnloadPlatforms PLATFORMS]"
    "open_sessions (snd (async_unload_entry h)) = open_sessions h"
    by (simp_all add: async_unload_entry_def async_unload_platforms_def called_def)
  have "fst (unload h) = True
          \<and> loaded_platforms (snd (unload h)) = loaded_platforms h0 - set PLATFORMS
          \<and> open_sessions (snd (unload h)) = 0" if ok: "list_all (teardown_ok h) PLATFORMS"
    using ok h(1) unload_platforms_all[OF ok]
    by (auto simp add: unload_def async_unload_entry_def async_unload_platforms_def called_def)
  then show ?thesis using h u by blast
qed

theorem unload_tears_down_what_setup_forwarded_witness:
  "fst (async_setup_entry example_hass) = Inr True
   \<and> fst (async_unload_entry example_running) = True
   \<and> fst (unload example_running) = True
   \<and> loaded_platforms (snd (unload example_running)) = {}
   \<and> open_sessions (snd (unload example_running)) = 0"
proof -
  have r: "fst (async_setup_entry example_hass) = Inr True"
    by (simp add: example_setup)
  have ok: "list_all (teardown_ok example_running) PLATFORMS"
    by (simp add: example_running example_defs PLATFORMS_def)
  show ?thesis
    using r ok unload_tears_down_what_setup_forwarded[OF r example_running_def]
    by (simp add: example_defs)
qed

end
